theory Spec2Isabelle
  imports Complex_Main "HOL-Library.AList" "HOL-Library.Multiset"
begin

section \<open>Conventions of the embedding\<close>

text \<open>
  The library is Go. Its \<^verbatim>\<open>float64\<close> values are embedded as the reals: every
  arithmetic operation is exact, and the non-finite results of IEEE arithmetic (a
  division by zero gives an infinity or NaN in Go, never a panic) are outside the model,
  so statements about the value of a quotient are made for non-zero divisors only.
  Go's \<^verbatim>\<open>int\<close> is embedded as \<open>int\<close> (no operation of the modelled code
  can overflow it), a \<^verbatim>\<open>time.Duration\<close> and a clock reading as an \<open>int\<close> of
  nanoseconds. A function that reads the clock takes the reading \<open>now\<close> as an argument;
  one call of a client operation reads one instant.

  A Go function returning \<^verbatim>\<open>(T, error)\<close> returns \<open>error + T\<close> here
  (\<open>Inl\<close> the error). A method that changes the client (its cache, or the requests its
  adapters have issued) also returns the changed client.
\<close>

type_synonym float64 = real

datatype gotime = TimeZero | TimeAt int

subsection \<open>Errors (src/currency.go, from line 546)\<close>

datatype ctxval = CtxString string | CtxFloat float64 | CtxInt int | CtxStrings "string list"

text \<open>
  An error value is one of the package's sentinel errors, an error made by
  \<^verbatim>\<open>fmt.Errorf\<close> (\<open>Errorf\<close> without, \<open>Wrapf\<close> with a wrapped error for the
  \<^verbatim>\<open>%w\<close> verb; the format and the other arguments are kept unrendered), or a
  \<^verbatim>\<open>*PPPError\<close> with its code, message, wrapped error and context.
\<close>

datatype error =
    ErrNoData
  | ErrInvalidCountry
  | ErrInvalidCurrency
  | ErrInvalidAmount
  | ErrAPIUnavailable
  | ErrCacheDisabled
  | ErrInvalidDateRange
  | Errorf string "ctxval list"
  | Wrapf string "ctxval list" error
  | PPPError string string "error option" "(string \<times> ctxval) list"

definition ErrCodeNoData :: string where "ErrCodeNoData = ''NO_DATA''"
definition ErrCodeAPIError :: string where "ErrCodeAPIError = ''API_ERROR''"
definition ErrCodeInvalidInput :: string where "ErrCodeInvalidInput = ''INVALID_INPUT''"

definition NewPPPError :: "string \<Rightarrow> string \<Rightarrow> error option \<Rightarrow> error" where
  "NewPPPError code message err = PPPError code message err []"

fun WithContext :: "error \<Rightarrow> string \<Rightarrow> ctxval \<Rightarrow> error" where
  "WithContext (PPPError c m e ctx) key v = PPPError c m e (AList.update key v ctx)"
| "WithContext e key v = e"

text \<open>\<^verbatim>\<open>errors.As(err, &pppErr)\<close>: the code of the first \<^verbatim>\<open>*PPPError\<close> on the
  chain of wrapped errors.\<close>

fun As_PPPError :: "error \<Rightarrow> string option" where
  "As_PPPError (PPPError c m e ctx) = Some c"
| "As_PPPError (Wrapf f args e) = As_PPPError e"
| "As_PPPError e = None"

text \<open>\<^verbatim>\<open>errors.Is(err, ErrNoData)\<close>: the sentinel is on the chain.\<close>

fun Is_ErrNoData :: "error \<Rightarrow> bool" where
  "Is_ErrNoData ErrNoData = True"
| "Is_ErrNoData (Wrapf f args e) = Is_ErrNoData e"
| "Is_ErrNoData (PPPError c m (Some e) ctx) = Is_ErrNoData e"
| "Is_ErrNoData e = False"

definition IsNoDataError :: "error \<Rightarrow> bool" where
  "IsNoDataError err =
     (case As_PPPError err of
        Some code \<Rightarrow> code = ErrCodeNoData
      | None \<Rightarrow> Is_ErrNoData err)"

definition IsAPIError :: "error \<Rightarrow> bool" where
  "IsAPIError err =
     (case As_PPPError err of
        Some code \<Rightarrow> code = ErrCodeAPIError
      | None \<Rightarrow> False)"

subsection \<open>Validation (src/currency.go, from line 639)\<close>

definition upper_letter :: "char \<Rightarrow> bool" where
  "upper_letter ch \<longleftrightarrow> (65::nat) \<le> of_char ch \<and> (of_char ch :: nat) \<le> 90"

definition ValidateCountryCode :: "string \<Rightarrow> error option" where
  "ValidateCountryCode code =
     (if length code \<noteq> 2 then
        Some (WithContext (NewPPPError ErrCodeInvalidInput ''country code must be 2 characters''
                (Some ErrInvalidCountry)) ''country_code'' (CtxString code))
      else if \<not> list_all upper_letter code then
        Some (WithContext (NewPPPError ErrCodeInvalidInput ''country code must be uppercase letters''
                (Some ErrInvalidCountry)) ''country_code'' (CtxString code))
      else None)"

definition ValidateCurrencyCode :: "string \<Rightarrow> error option" where
  "ValidateCurrencyCode code =
     (if length code \<noteq> 3 then
        Some (WithContext (NewPPPError ErrCodeInvalidInput ''currency code must be 3 characters''
                (Some ErrInvalidCurrency)) ''currency_code'' (CtxString code))
      else if \<not> list_all upper_letter code then
        Some (WithContext (NewPPPError ErrCodeInvalidInput ''currency code must be uppercase letters''
                (Some ErrInvalidCurrency)) ''currency_code'' (CtxString code))
      else None)"

definition ValidateAmount :: "float64 \<Rightarrow> error option" where
  "ValidateAmount amount =
     (if amount < 0 then
        Some (WithContext (NewPPPError ErrCodeInvalidInput ''amount cannot be negative''
                (Some ErrInvalidAmount)) ''amount'' (CtxFloat amount))
      else if amount = 0 then
        Some (WithContext (NewPPPError ErrCodeInvalidInput ''amount cannot be zero''
                (Some ErrInvalidAmount)) ''amount'' (CtxFloat amount))
      else if amount > 10 ^ 15 then
        Some (WithContext (NewPPPError ErrCodeInvalidInput ''amount is too large''
                (Some ErrInvalidAmount)) ''amount'' (CtxFloat amount))
      else None)"

subsection \<open>Data (src/models.go)\<close>

text \<open>
  The structs keep their field names. Where two structs share a field name the selector
  is written with its record: \<open>PPPData.Factor\<close>, \<open>CountryComparison.Factor\<close>.
\<close>

record Region =
  ID :: string
  ISO2Code :: string
  Value :: string

record Level =
  ID :: string
  ISO2Code :: string
  Value :: string

record Country =
  ID :: string
  ISO2Code :: string
  Name :: string
  Region :: Region
  AdminRegion :: Region
  IncomeLevel :: Level
  LendingType :: Level
  CapitalCity :: string
  Longitude :: string
  Latitude :: string

record IndicatorSource =
  ID :: string
  Value :: string

record Topic =
  ID :: string
  Value :: string

record Indicator =
  ID :: string
  Name :: string
  Unit :: string
  Source :: IndicatorSource
  SourceNote :: string
  SourceOrg :: string
  Topics :: "Topic list"

record IndicatorInfo =
  ID :: string
  Value :: string

record CountryInfo =
  ID :: string
  Value :: string

record IndicatorData =
  Indicator :: IndicatorInfo
  Country :: CountryInfo
  CountryISO3Code :: string
  Date :: string
  Value :: "float64 option"
  Unit :: string
  ObsStatus :: string
  Decimal :: int

record PPPData =
  CountryCode :: string
  CountryName :: string
  Year :: int
  Factor :: float64
  LastUpdated :: gotime
  Source :: string

record ExchangeRate =
  From :: string
  To :: string
  Rate :: float64
  LastUpdated :: gotime

record PriceRecommendation =
  OriginalPrice :: float64
  OriginalCurrency :: string
  RecommendedPrice :: float64
  TargetCurrency :: string
  PPPFactor :: float64
  ExchangeRate :: float64
  DiscountPercentage :: float64

record PPPTrendAnalysis =
  Country :: string
  StartYear :: int
  EndYear :: int
  Average :: float64
  Trend :: string
  Volatility :: float64
  DataPoints :: int

record CountryComparison =
  Country :: string
  CountryName :: string
  Factor :: float64
  PercentOfUS :: float64
  Rank :: int

section \<open>The cache (src/unnamed/part_000)\<close>

text \<open>
  What the cache holds behind Go's \<^verbatim>\<open>interface{}\<close>: the dynamic type and the value.
  The type assertions of the getters are the pattern matches on \<open>obj\<close>.
\<close>

datatype obj =
    PPPObj PPPData
  | RateObj ExchangeRate
  | CountriesObj "Country list"
  | IndicatorsObj "Indicator list"

record item =
  Object :: obj
  Expiration :: int

text \<open>
  Modelled from the spec: the expiring key-value map \<^verbatim>\<open>memory\<close> is the imported package
  go-cache, whose code is not part of the repository. The specification describes it as
  a single expiring key-value map with passive expiration checked on read: an entry
  stored with a positive time-to-live expires that long after the store, one stored with
  the default duration takes the cache's default, and an entry without a positive
  time-to-live never expires (\<open>Expiration = 0\<close>). The periodic sweep removes only entries
  that a read already treats as absent, and is not modelled. The entries are an
  association list with distinct keys, in the order a Go \<^verbatim>\<open>range\<close> would visit them.
\<close>

record memory_cache =
  defaultExpiration :: int
  entries :: "(string \<times> item) list"

record Cache =
  memory :: memory_cache

definition DefaultExpiration :: int where "DefaultExpiration = 0"

definition memory_New :: "int \<Rightarrow> int \<Rightarrow> memory_cache" where
  "memory_New de cleanupInterval =
     \<lparr>defaultExpiration = (if de = 0 then - 1 else de), entries = []\<rparr>"

definition expired :: "int \<Rightarrow> item \<Rightarrow> bool" where
  "expired now it \<longleftrightarrow> Expiration it > 0 \<and> now > Expiration it"

definition memory_Set :: "memory_cache \<Rightarrow> int \<Rightarrow> string \<Rightarrow> obj \<Rightarrow> int \<Rightarrow> memory_cache" where
  "memory_Set c now k x d =
     (let d' = (if d = DefaultExpiration then defaultExpiration c else d);
          e = (if d' > 0 then now + d' else 0)
      in c\<lparr>entries := AList.update k \<lparr>Object = x, Expiration = e\<rparr> (entries c)\<rparr>)"

definition memory_Get :: "memory_cache \<Rightarrow> int \<Rightarrow> string \<Rightarrow> obj option" where
  "memory_Get c now k =
     (case map_of (entries c) k of
        None \<Rightarrow> None
      | Some it \<Rightarrow> if expired now it then None else Some (Object it))"

definition memory_Items :: "memory_cache \<Rightarrow> int \<Rightarrow> (string \<times> item) list" where
  "memory_Items c now = filter (\<lambda>(k, it). \<not> expired now it) (entries c)"

definition memory_Flush :: "memory_cache \<Rightarrow> memory_cache" where
  "memory_Flush c = c\<lparr>entries := []\<rparr>"

definition NewCache :: "int \<Rightarrow> int \<Rightarrow> Cache" where
  "NewCache defaultExp cleanupInterval = \<lparr>memory = memory_New defaultExp cleanupInterval\<rparr>"

definition CacheKeyPPP :: "string \<Rightarrow> string" where
  "CacheKeyPPP countryCode = ''ppp:'' @ countryCode"

definition CacheKeyExchangeRate :: "string \<Rightarrow> string \<Rightarrow> string" where
  "CacheKeyExchangeRate from to = ''rate:'' @ from @ '':'' @ to"

definition CacheKeyCountries :: string where
  "CacheKeyCountries = ''countries:all''"

definition CacheKeyIndicators :: "string \<Rightarrow> string" where
  "CacheKeyIndicators search = ''indicators:search:'' @ search"

definition Cache_GetPPP :: "Cache \<Rightarrow> int \<Rightarrow> string \<Rightarrow> PPPData option" where
  "Cache_GetPPP c now countryCode =
     (case memory_Get (memory c) now (CacheKeyPPP countryCode) of
        Some (PPPObj ppp) \<Rightarrow> Some ppp
      | _ \<Rightarrow> None)"

definition Cache_SetPPP :: "Cache \<Rightarrow> int \<Rightarrow> string \<Rightarrow> PPPData \<Rightarrow> int \<Rightarrow> Cache" where
  "Cache_SetPPP c now countryCode d expiration =
     c\<lparr>memory := memory_Set (memory c) now (CacheKeyPPP countryCode) (PPPObj d) expiration\<rparr>"

definition Cache_GetExchangeRate :: "Cache \<Rightarrow> int \<Rightarrow> string \<Rightarrow> string \<Rightarrow> ExchangeRate option" where
  "Cache_GetExchangeRate c now from to =
     (case memory_Get (memory c) now (CacheKeyExchangeRate from to) of
        Some (RateObj rate) \<Rightarrow> Some rate
      | _ \<Rightarrow> None)"

definition Cache_SetExchangeRate ::
  "Cache \<Rightarrow> int \<Rightarrow> string \<Rightarrow> string \<Rightarrow> ExchangeRate \<Rightarrow> int \<Rightarrow> Cache" where
  "Cache_SetExchangeRate c now from to rate expiration =
     c\<lparr>memory := memory_Set (memory c) now (CacheKeyExchangeRate from to) (RateObj rate) expiration\<rparr>"

definition Cache_GetCountries :: "Cache \<Rightarrow> int \<Rightarrow> Country list option" where
  "Cache_GetCountries c now =
     (case memory_Get (memory c) now CacheKeyCountries of
        Some (CountriesObj countries) \<Rightarrow> Some countries
      | _ \<Rightarrow> None)"

definition Cache_SetCountries :: "Cache \<Rightarrow> int \<Rightarrow> Country list \<Rightarrow> int \<Rightarrow> Cache" where
  "Cache_SetCountries c now countries expiration =
     c\<lparr>memory := memory_Set (memory c) now CacheKeyCountries (CountriesObj countries) expiration\<rparr>"

definition Cache_GetIndicators :: "Cache \<Rightarrow> int \<Rightarrow> string \<Rightarrow> Indicator list option" where
  "Cache_GetIndicators c now search =
     (case memory_Get (memory c) now (CacheKeyIndicators search) of
        Some (IndicatorsObj indicators) \<Rightarrow> Some indicators
      | _ \<Rightarrow> None)"

definition Cache_SetIndicators :: "Cache \<Rightarrow> int \<Rightarrow> string \<Rightarrow> Indicator list \<Rightarrow> int \<Rightarrow> Cache" where
  "Cache_SetIndicators c now search indicators expiration =
     c\<lparr>memory := memory_Set (memory c) now (CacheKeyIndicators search) (IndicatorsObj indicators) expiration\<rparr>"

definition Cache_Clear :: "Cache \<Rightarrow> Cache" where
  "Cache_Clear c = c\<lparr>memory := memory_Flush (memory c)\<rparr>"

section \<open>The provider adapters\<close>

text \<open>
  The two remote providers are the environment. Each adapter keeps the list of the
  requests it has issued (one entry per call of an adapter method; the retries of the
  HTTP library inside one call are not counted), and the environment answers the
  \<open>n\<close>-th request of an adapter by a reply that may depend on \<open>n\<close>: a provider may
  answer the same request differently over time. A reply is what the HTTP library
  hands back: a transport failure, or a status with a body; the body is given with the
  outcome of its decoding, which is the JSON library's work (for the indicator provider:
  not JSON, an envelope of fewer than two elements, a second element that cannot be
  encoded again or cannot be decoded as data points, or the data points).
\<close>

record wb_request =
  rq_base :: string
  rq_country :: string
  rq_indicator :: string
  rq_start :: int
  rq_end :: int
  rq_per_page :: nat

datatype wb_payload =
    NotJSON error
  | TooShort
  | BadElement error
  | BadPoints error
  | Points "IndicatorData list"

datatype wb_reply = WBFailed error | WBResponse int string wb_payload

record rate_request =
  rr_base :: string
  rr_from :: string

datatype rate_payload =
    RateNotJSON error
  | RateDoc "string option" "string \<Rightarrow> (string \<Rightarrow> float64 option) option"

datatype rate_reply = RateFailed error | RateResponse int string rate_payload

record env =
  wb_serve :: "nat \<Rightarrow> wb_request \<Rightarrow> wb_reply"
  rate_serve :: "nat \<Rightarrow> rate_request \<Rightarrow> rate_reply"
  year_of :: "int \<Rightarrow> int"
  parse_date :: "string \<Rightarrow> gotime"
  format_date :: "int \<Rightarrow> string"

subsection \<open>World Bank (src/worldbank.go)\<close>

definition DefaultWorldBankAPI :: string where
  "DefaultWorldBankAPI = ''https://api.worldbank.org/v2''"

definition PPPIndicatorCode :: string where
  "PPPIndicatorCode = ''PA.NUS.PPP''"

record WorldBankClient =
  wb_baseURL :: string
  wb_requests :: "wb_request list"

definition NewWorldBankClient :: "string \<Rightarrow> WorldBankClient" where
  "NewWorldBankClient baseURL =
     \<lparr>wb_baseURL = (if baseURL = [] then DefaultWorldBankAPI else baseURL), wb_requests = []\<rparr>"

text \<open>\<^verbatim>\<open>strconv.Atoi\<close> with its error dropped: the value of an optionally signed
  decimal numeral, clamped to 64 bits, and 0 for any other string.\<close>

definition is_digit :: "char \<Rightarrow> bool" where
  "is_digit ch \<longleftrightarrow> (48::nat) \<le> of_char ch \<and> (of_char ch :: nat) \<le> 57"

definition digits_val :: "string \<Rightarrow> int" where
  "digits_val ds = foldl (\<lambda>acc ch. 10 * acc + (of_char ch - 48)) 0 ds"

definition Atoi :: "string \<Rightarrow> int" where
  "Atoi s =
     (let neg = (s \<noteq> [] \<and> hd s = CHR ''-'');
          ds = (if s \<noteq> [] \<and> (hd s = CHR ''-'' \<or> hd s = CHR ''+'') then tl s else s)
      in if ds = [] \<or> \<not> list_all is_digit ds then 0
         else let v = (if neg then - digits_val ds else digits_val ds)
              in max (- (2 ^ 63)) (min (2 ^ 63 - 1) v))"

text \<open>The request of \<^verbatim>\<open>GetPPP\<close> and \<^verbatim>\<open>GetHistoricalPPP\<close>, and the steps both
  take from the reply to the decoded data points.\<close>

definition wb_get :: "env \<Rightarrow> WorldBankClient \<Rightarrow> wb_request \<Rightarrow> wb_reply \<times> WorldBankClient" where
  "wb_get ev w rq =
     (wb_serve ev (length (wb_requests w)) rq, w\<lparr>wb_requests := wb_requests w @ [rq]\<rparr>)"

definition wb_points :: "string \<Rightarrow> wb_reply \<Rightarrow> error + IndicatorData list" where
  "wb_points what reply =
     (case reply of
        WBFailed err \<Rightarrow> Inl (Wrapf what [] err)
      | WBResponse status body payload \<Rightarrow>
          if status \<noteq> 200 then
            Inl (Errorf ''API returned status %d: %s'' [CtxInt status, CtxString body])
          else
            (case payload of
               NotJSON err \<Rightarrow> Inl (Wrapf ''failed to parse response: %w'' [] err)
             | TooShort \<Rightarrow> Inl (Errorf ''invalid response format'' [])
             | BadElement err \<Rightarrow> Inl (Wrapf ''failed to marshal data: %w'' [] err)
             | BadPoints err \<Rightarrow> Inl (Wrapf ''failed to parse data points: %w'' [] err)
             | Points dataPoints \<Rightarrow> Inr dataPoints))"

definition to_PPPData :: "int \<Rightarrow> IndicatorData \<Rightarrow> float64 \<Rightarrow> PPPData" where
  "to_PPPData now dp v =
     \<lparr>CountryCode = CountryInfo.ID (IndicatorData.Country dp),
      PPPData.CountryName = CountryInfo.Value (IndicatorData.Country dp),
      Year = Atoi (Date dp),
      PPPData.Factor = v,
      PPPData.LastUpdated = TimeAt now,
      PPPData.Source = ''World Bank''\<rparr>"

text \<open>The loop of \<^verbatim>\<open>GetPPP\<close> over the data points: the first one whose value is
  present and positive is returned.\<close>

fun first_positive :: "int \<Rightarrow> IndicatorData list \<Rightarrow> PPPData option" where
  "first_positive now [] = None"
| "first_positive now (dp # dps) =
     (case IndicatorData.Value dp of
        Some v \<Rightarrow> if v > 0 then Some (to_PPPData now dp v) else first_positive now dps
      | None \<Rightarrow> first_positive now dps)"

definition WorldBank_GetPPP ::
  "env \<Rightarrow> int \<Rightarrow> WorldBankClient \<Rightarrow> string \<Rightarrow> (error + PPPData) \<times> WorldBankClient" where
  "WorldBank_GetPPP ev now w countryCode =
     (let endYear = year_of ev now;
          startYear = endYear - 10;
          (reply, w') = wb_get ev w
             \<lparr>rq_base = wb_baseURL w, rq_country = countryCode, rq_indicator = PPPIndicatorCode,
              rq_start = startYear, rq_end = endYear, rq_per_page = 50\<rparr>
      in case wb_points ''failed to fetch PPP data: %w'' reply of
           Inl err \<Rightarrow> (Inl err, w')
         | Inr dataPoints \<Rightarrow>
             (case first_positive now dataPoints of
                Some ppp \<Rightarrow> (Inr ppp, w')
              | None \<Rightarrow>
                  (Inl (Errorf ''no PPP data available for country %s'' [CtxString countryCode]), w')))"



subsection \<open>Exchange rates (src/currency.go, to line 151)\<close>

definition DefaultCurrencyAPI :: string where
  "DefaultCurrencyAPI = ''https://cdn.jsdelivr.net/npm/@fawazahmed0/currency-api@latest/v1''"

record CurrencyClient =
  cur_baseURL :: string
  cur_requests :: "rate_request list"

definition NewCurrencyClient :: "string \<Rightarrow> CurrencyClient" where
  "NewCurrencyClient baseURL =
     \<lparr>cur_baseURL = (if baseURL = [] then DefaultCurrencyAPI else baseURL), cur_requests = []\<rparr>"

text \<open>\<^verbatim>\<open>strings.ToLower\<close> and \<^verbatim>\<open>strings.ToUpper\<close> on the ASCII letters, which is
  what currency codes consist of; other bytes are left as they are.\<close>

definition lower_char :: "char \<Rightarrow> char" where
  "lower_char ch =
     (if (65::nat) \<le> of_char ch \<and> (of_char ch :: nat) \<le> 90 then char_of (of_char ch + (32::nat)) else ch)"

definition upper_char :: "char \<Rightarrow> char" where
  "upper_char ch =
     (if (97::nat) \<le> of_char ch \<and> (of_char ch :: nat) \<le> 122 then char_of (of_char ch - (32::nat)) else ch)"

definition ToLower :: "string \<Rightarrow> string" where "ToLower s = map lower_char s"
definition ToUpper :: "string \<Rightarrow> string" where "ToUpper s = map upper_char s"

definition Currency_GetExchangeRate ::
  "env \<Rightarrow> int \<Rightarrow> CurrencyClient \<Rightarrow> string \<Rightarrow> string \<Rightarrow> (error + ExchangeRate) \<times> CurrencyClient" where
  "Currency_GetExchangeRate ev now c from0 to0 =
     (let from = ToLower from0;
          to = ToLower to0;
          rq = \<lparr>rr_base = cur_baseURL c, rr_from = from\<rparr>;
          reply = rate_serve ev (length (cur_requests c)) rq;
          c' = c\<lparr>cur_requests := cur_requests c @ [rq]\<rparr>
      in case reply of
           RateFailed err \<Rightarrow> (Inl (Wrapf ''failed to fetch exchange rate: %w'' [] err), c')
         | RateResponse status body payload \<Rightarrow>
             if status \<noteq> 200 then
               (Inl (Errorf ''API returned status %d: %s'' [CtxInt status, CtxString body]), c')
             else
               (case payload of
                  RateNotJSON err \<Rightarrow> (Inl (Wrapf ''failed to parse response: %w'' [] err), c')
                | RateDoc date rates \<Rightarrow>
                    let dateStr = (case date of Some d \<Rightarrow> d | None \<Rightarrow> format_date ev now)
                    in case rates from of
                         None \<Rightarrow>
                           (Inl (Errorf ''no rates found for currency %s'' [CtxString from]), c')
                       | Some quotes \<Rightarrow>
                           (case quotes to of
                              None \<Rightarrow>
                                (Inl (Errorf ''no exchange rate found for %s to %s''
                                        [CtxString from, CtxString to]), c')
                            | Some rate \<Rightarrow>
                                (Inr \<lparr>From = ToUpper from, To = ToUpper to, Rate = rate,
                                      ExchangeRate.LastUpdated = parse_date ev dateStr\<rparr>, c'))))"

section \<open>The client (src/currency.go, lines 152 to 545)\<close>

record Client =
  worldBank :: WorldBankClient
  currency :: CurrencyClient
  cache :: "Cache option"
  cacheEnabled :: bool
  cacheDuration :: int
  timeout :: int

definition Hour :: int where "Hour = 3600 * 10 ^ 9"
definition Second :: int where "Second = 10 ^ 9"

definition WithCache :: "int \<Rightarrow> Client \<Rightarrow> Client" where
  "WithCache duration c =
     c\<lparr>cacheEnabled := True, cacheDuration := duration,
       cache := Some (NewCache duration (duration * 2))\<rparr>"

definition WithoutCache :: "Client \<Rightarrow> Client" where
  "WithoutCache c = c\<lparr>cacheEnabled := False, cache := None\<rparr>"

definition WithTimeout :: "int \<Rightarrow> Client \<Rightarrow> Client" where
  "WithTimeout t c = c\<lparr>timeout := t\<rparr>"

definition WithWorldBankURL :: "string \<Rightarrow> Client \<Rightarrow> Client" where
  "WithWorldBankURL url c = c\<lparr>worldBank := NewWorldBankClient url\<rparr>"

definition WithCurrencyURL :: "string \<Rightarrow> Client \<Rightarrow> Client" where
  "WithCurrencyURL url c = c\<lparr>currency := NewCurrencyClient url\<rparr>"

definition NewClient :: "(Client \<Rightarrow> Client) list \<Rightarrow> Client" where
  "NewClient opts =
     foldl (\<lambda>client opt. opt client)
       \<lparr>worldBank = NewWorldBankClient [],
        currency = NewCurrencyClient [],
        cache = Some (NewCache (24 * Hour) (24 * Hour * 2)),
        cacheEnabled = True,
        cacheDuration = 24 * Hour,
        timeout = 30 * Second\<rparr>
       opts"

text \<open>The guard \<^verbatim>\<open>c.cacheEnabled && c.cache != nil\<close> of every cached operation.\<close>

definition live_cache :: "Client \<Rightarrow> Cache option" where
  "live_cache c = (if cacheEnabled c then cache c else None)"

definition Client_GetPPP ::
  "env \<Rightarrow> int \<Rightarrow> Client \<Rightarrow> string \<Rightarrow> (error + PPPData) \<times> Client" where
  "Client_GetPPP ev now c countryCode =
     (case (case live_cache c of
              Some ch \<Rightarrow> Cache_GetPPP ch now countryCode
            | None \<Rightarrow> None) of
        Some ppp \<Rightarrow> (Inr ppp, c)
      | None \<Rightarrow>
          (case WorldBank_GetPPP ev now (worldBank c) countryCode of
             (Inl err, w) \<Rightarrow> (Inl err, c\<lparr>worldBank := w\<rparr>)
           | (Inr ppp, w) \<Rightarrow>
               (Inr ppp,
                case live_cache c of
                  Some ch \<Rightarrow>
                    c\<lparr>worldBank := w,
                      cache := Some (Cache_SetPPP ch now countryCode ppp (cacheDuration c))\<rparr>
                | None \<Rightarrow> c\<lparr>worldBank := w\<rparr>)))"

definition Client_GetExchangeRate ::
  "env \<Rightarrow> int \<Rightarrow> Client \<Rightarrow> string \<Rightarrow> string \<Rightarrow> (error + ExchangeRate) \<times> Client" where
  "Client_GetExchangeRate ev now c from to =
     (case (case live_cache c of
              Some ch \<Rightarrow> Cache_GetExchangeRate ch now from to
            | None \<Rightarrow> None) of
        Some rate \<Rightarrow> (Inr rate, c)
      | None \<Rightarrow>
          (case Currency_GetExchangeRate ev now (currency c) from to of
             (Inl err, cc) \<Rightarrow> (Inl err, c\<lparr>currency := cc\<rparr>)
           | (Inr rate, cc) \<Rightarrow>
               (Inr rate,
                case live_cache c of
                  Some ch \<Rightarrow>
                    c\<lparr>currency := cc,
                      cache := Some (Cache_SetExchangeRate ch now from to rate Hour)\<rparr>
                | None \<Rightarrow> c\<lparr>currency := cc\<rparr>)))"

definition currencyMap :: "(string \<times> string) list" where
  "currencyMap =
     [(''US'', ''USD''), (''TR'', ''TRY''), (''DE'', ''EUR''), (''FR'', ''EUR''),
      (''IT'', ''EUR''), (''ES'', ''EUR''), (''GB'', ''GBP''), (''JP'', ''JPY''),
      (''CN'', ''CNY''), (''IN'', ''INR''), (''BR'', ''BRL''), (''RU'', ''RUB''),
      (''CA'', ''CAD''), (''AU'', ''AUD''), (''MX'', ''MXN''), (''KR'', ''KRW''),
      (''ID'', ''IDR''), (''SA'', ''SAR''), (''AR'', ''ARS''), (''ZA'', ''ZAR''),
      (''NG'', ''NGN''), (''EG'', ''EGP''), (''PK'', ''PKR''), (''BD'', ''BDT''),
      (''VN'', ''VND''), (''TH'', ''THB''), (''MY'', ''MYR''), (''SG'', ''SGD''),
      (''PH'', ''PHP''), (''NZ'', ''NZD''), (''CH'', ''CHF''), (''SE'', ''SEK''),
      (''NO'', ''NOK''), (''DK'', ''DKK''), (''PL'', ''PLN''), (''CZ'', ''CZK''),
      (''HU'', ''HUF''), (''RO'', ''RON''), (''UA'', ''UAH''), (''IL'', ''ILS''),
      (''AE'', ''AED''), (''CL'', ''CLP''), (''CO'', ''COP''), (''PE'', ''PEN'')]"

definition getCurrencyForCountry :: "string \<Rightarrow> string" where
  "getCurrencyForCountry countryCode =
     (case map_of currencyMap countryCode of
        Some cur \<Rightarrow> cur
      | None \<Rightarrow> ''USD'')"

definition Recommend ::
  "env \<Rightarrow> int \<Rightarrow> Client \<Rightarrow> float64 \<Rightarrow> string \<Rightarrow> string
     \<Rightarrow> (error + PriceRecommendation) \<times> Client" where
  "Recommend ev now c price fromCurrency toCountry =
     (case Client_GetPPP ev now c toCountry of
        (Inl err, c1) \<Rightarrow> (Inl (Wrapf ''failed to get PPP data: %w'' [] err), c1)
      | (Inr ppp, c1) \<Rightarrow>
          (let toCurrency = getCurrencyForCountry toCountry
           in case Client_GetExchangeRate ev now c1 fromCurrency toCurrency of
                (Inl err, c2) \<Rightarrow> (Inl (Wrapf ''failed to get exchange rate: %w'' [] err), c2)
              | (Inr rate, c2) \<Rightarrow>
                  (let recommendedPrice = price * PPPData.Factor ppp;
                       normalPrice = price * Rate rate;
                       discountPercentage = ((normalPrice - recommendedPrice) / normalPrice) * 100
                   in (Inr \<lparr>OriginalPrice = price,
                             OriginalCurrency = fromCurrency,
                             RecommendedPrice = recommendedPrice,
                             TargetCurrency = toCurrency,
                             PPPFactor = PPPData.Factor ppp,
                             ExchangeRate = Rate rate,
                             DiscountPercentage = discountPercentage\<rparr>, c2))))"


subsection \<open>Trend analysis\<close>




subsection \<open>Comparison of countries\<close>

text \<open>The first loop of \<^verbatim>\<open>ComparePPP\<close>: one fetch per country code, at index \<open>i\<close>; a
  failed fetch is skipped, a successful one appends an entry whose rank is the
  placeholder \<open>i + 1\<close>.\<close>

fun collect_comparisons ::
  "env \<Rightarrow> int \<Rightarrow> Client \<Rightarrow> nat \<Rightarrow> string list \<Rightarrow> CountryComparison list
     \<Rightarrow> CountryComparison list \<times> Client" where
  "collect_comparisons ev now c i [] comparisons = (comparisons, c)"
| "collect_comparisons ev now c i (code # codes) comparisons =
     (case Client_GetPPP ev now c code of
        (Inl err, c') \<Rightarrow> collect_comparisons ev now c' (i + 1) codes comparisons
      | (Inr ppp, c') \<Rightarrow>
          collect_comparisons ev now c' (i + 1) codes
            (comparisons @
               [\<lparr>CountryComparison.Country = code,
                 CountryComparison.CountryName = PPPData.CountryName ppp,
                 CountryComparison.Factor = PPPData.Factor ppp,
                 PercentOfUS = (1 / PPPData.Factor ppp) * 100,
                 Rank = int i + 1\<rparr>]))"

text \<open>The sort: for every \<open>i\<close>, the inner loop over \<open>j > i\<close> swaps the entries at \<open>i\<close>
  and \<open>j\<close> when the factor at \<open>i\<close> is the greater.\<close>

function sort_inner :: "nat \<Rightarrow> nat \<Rightarrow> CountryComparison list \<Rightarrow> CountryComparison list" where
  "sort_inner i j comparisons =
     (if j < length comparisons then
        sort_inner i (j + 1)
          (if CountryComparison.Factor (comparisons ! i) > CountryComparison.Factor (comparisons ! j)
           then comparisons[i := comparisons ! j, j := comparisons ! i]
           else comparisons)
      else comparisons)"
  by pat_completeness auto
termination
  by (relation "measure (\<lambda>(i, j, comparisons). length comparisons - j)") auto

declare sort_inner.simps [simp del]

lemma length_sort_inner: "length (sort_inner i j comparisons) = length comparisons"
  by (induction i j comparisons rule: sort_inner.induct) (subst sort_inner.simps, simp)

function sort_outer :: "nat \<Rightarrow> CountryComparison list \<Rightarrow> CountryComparison list" where
  "sort_outer i comparisons =
     (if i < length comparisons then sort_outer (i + 1) (sort_inner i (i + 1) comparisons)
      else comparisons)"
  by pat_completeness auto
termination
  by (relation "measure (\<lambda>(i, comparisons). length comparisons - i)")
     (auto simp: length_sort_inner)

declare sort_outer.simps [simp del]

fun update_ranks :: "nat \<Rightarrow> CountryComparison list \<Rightarrow> CountryComparison list" where
  "update_ranks i [] = []"
| "update_ranks i (x # xs) = x\<lparr>Rank := int i + 1\<rparr> # update_ranks (i + 1) xs"

definition ComparePPP ::
  "env \<Rightarrow> int \<Rightarrow> Client \<Rightarrow> string list \<Rightarrow> (error + CountryComparison list) \<times> Client" where
  "ComparePPP ev now c countryCodes =
     (case collect_comparisons ev now c 0 countryCodes [] of
        (comparisons, c') \<Rightarrow> (Inr (update_ranks 0 (sort_outer 0 comparisons)), c'))"

section \<open>The recommendation engine (src/recommend.go)\<close>

record PricingTier =
  Name :: string
  MinPPPFactor :: float64
  MaxPPPFactor :: float64
  DiscountPercentage :: float64


record RecommendationEngine =
  client :: Client
  pricingTiers :: "PricingTier list"


definition SetPricingTiers :: "RecommendationEngine \<Rightarrow> PricingTier list \<Rightarrow> RecommendationEngine" where
  "SetPricingTiers r tiers = r\<lparr>pricingTiers := tiers\<rparr>"

text \<open>The loop of \<^verbatim>\<open>getTierForPPP\<close> over the tiers, in list order.\<close>

fun tier_loop :: "PricingTier list \<Rightarrow> float64 \<Rightarrow> PricingTier option" where
  "tier_loop [] pppFactor = None"
| "tier_loop (tier # tiers) pppFactor =
     (if pppFactor \<ge> MinPPPFactor tier \<and> pppFactor < MaxPPPFactor tier then Some tier
      else tier_loop tiers pppFactor)"

definition getTierForPPP :: "RecommendationEngine \<Rightarrow> float64 \<Rightarrow> PricingTier option" where
  "getTierForPPP r pppFactor = tier_loop (pricingTiers r) pppFactor"

definition RecommendWithStrategy ::
  "env \<Rightarrow> int \<Rightarrow> RecommendationEngine \<Rightarrow> float64 \<Rightarrow> string \<Rightarrow> string
     \<Rightarrow> (error + PriceRecommendation) \<times> RecommendationEngine" where
  "RecommendWithStrategy ev now r price fromCurrency toCountry =
     (case ValidateAmount price of
        Some err \<Rightarrow> (Inl err, r)
      | None \<Rightarrow>
     (case ValidateCurrencyCode fromCurrency of
        Some err \<Rightarrow> (Inl err, r)
      | None \<Rightarrow>
     (case ValidateCountryCode toCountry of
        Some err \<Rightarrow> (Inl err, r)
      | None \<Rightarrow>
     (case Recommend ev now (client r) price fromCurrency toCountry of
        (Inl err, c') \<Rightarrow> (Inl err, r\<lparr>client := c'\<rparr>)
      | (Inr rec, c') \<Rightarrow>
          (case getTierForPPP r (PPPFactor rec) of
             Some tier \<Rightarrow>
               (Inr (rec\<lparr>RecommendedPrice := price * (1 - PricingTier.DiscountPercentage tier / 100),
                          PriceRecommendation.DiscountPercentage :=
                            PricingTier.DiscountPercentage tier\<rparr>),
                r\<lparr>client := c'\<rparr>)
           | None \<Rightarrow> (Inr rec, r\<lparr>client := c'\<rparr>))))))"

record SaaSPricing =
  Monthly :: float64
  Annual :: float64
  AnnualSavings :: float64
  Currency :: string
  DiscountPercentage :: float64
  PPPAdjusted :: bool

definition RecommendSaaS ::
  "env \<Rightarrow> int \<Rightarrow> RecommendationEngine \<Rightarrow> float64 \<Rightarrow> string \<Rightarrow> string
     \<Rightarrow> (error + SaaSPricing) \<times> RecommendationEngine" where
  "RecommendSaaS ev now r monthlyPrice fromCurrency toCountry =
     (case RecommendWithStrategy ev now r monthlyPrice fromCurrency toCountry of
        (Inl err, r') \<Rightarrow> (Inl err, r')
      | (Inr rec, r') \<Rightarrow>
          (let annualDiscount = 0.167;
               annualPrice = RecommendedPrice rec * 12 * (1 - annualDiscount)
           in (Inr \<lparr>Monthly = RecommendedPrice rec,
                     Annual = annualPrice,
                     AnnualSavings = (RecommendedPrice rec * 12) - annualPrice,
                     Currency = TargetCurrency rec,
                     SaaSPricing.DiscountPercentage = PriceRecommendation.DiscountPercentage rec,
                     PPPAdjusted = True\<rparr>, r')))"

text \<open>\<^verbatim>\<open>math.Round\<close>: to the nearest integer, halves away from zero.\<close>

definition Round :: "float64 \<Rightarrow> float64" where
  "Round x = (if x \<ge> 0 then of_int \<lfloor>x + 1 / 2\<rfloor> else - of_int \<lfloor>- x + 1 / 2\<rfloor>)"

definition noDecimalCurrencies :: "string list" where
  "noDecimalCurrencies =
     [''JPY'', ''KRW'', ''IDR'', ''VND'', ''CLP'', ''PYG'', ''RWF'', ''XAF'', ''XOF'', ''XPF'']"

definition RoundPrice :: "float64 \<Rightarrow> string \<Rightarrow> float64" where
  "RoundPrice price cur =
     (if cur \<in> set noDecimalCurrencies then Round price
      else Round (price * 100) / 100)"

text \<open>
  The loop of \<^verbatim>\<open>CalculateMarketBasket\<close> over the items. A Go map is visited in an
  order the language leaves open: the items are an association list with distinct
  names, in the order of the visit. The result map is built the same way.
\<close>

fun basket_loop ::
  "float64 \<Rightarrow> float64 \<Rightarrow> string \<Rightarrow> (string \<times> float64) list \<Rightarrow> (string \<times> float64) list
     \<Rightarrow> error + (string \<times> float64) list" where
  "basket_loop factor rate toCurrency [] results = Inr results"
| "basket_loop factor rate toCurrency ((item, price) # items) results =
     (case ValidateAmount price of
        Some err \<Rightarrow> Inl (Wrapf ''invalid price for item %s: %w'' [CtxString item] err)
      | None \<Rightarrow>
          (let adjustedPrice = price * (factor / rate)
           in basket_loop factor rate toCurrency items
                (AList.update item (RoundPrice adjustedPrice toCurrency) results)))"

definition CalculateMarketBasket ::
  "env \<Rightarrow> int \<Rightarrow> Client \<Rightarrow> (string \<times> float64) list \<Rightarrow> string \<Rightarrow> string
     \<Rightarrow> (error + (string \<times> float64) list) \<times> Client" where
  "CalculateMarketBasket ev now c items fromCurrency toCountry =
     (case ValidateCurrencyCode fromCurrency of
        Some err \<Rightarrow> (Inl err, c)
      | None \<Rightarrow>
     (case ValidateCountryCode toCountry of
        Some err \<Rightarrow> (Inl err, c)
      | None \<Rightarrow>
     (if length items = 0 then
        (Inl (NewPPPError ErrCodeInvalidInput ''no items provided'' None), c)
      else
     (case Client_GetPPP ev now c toCountry of
        (Inl err, c1) \<Rightarrow> (Inl err, c1)
      | (Inr ppp, c1) \<Rightarrow>
          (let toCurrency = getCurrencyForCountry toCountry
           in case Client_GetExchangeRate ev now c1 fromCurrency toCurrency of
                (Inl err, c2) \<Rightarrow> (Inl err, c2)
              | (Inr rate, c2) \<Rightarrow>
                  (basket_loop (PPPData.Factor ppp) (Rate rate) toCurrency items [], c2))))))"

section \<open>The package-level functions (src/unnamed/part_001)\<close>





section \<open>Cache files (src/unnamed/part_000, from line 118; src/currency.go, from line 466)\<close>

text \<open>
  The JSON library and the file system are the environment of the export and the
  import. A codec gives, for the type \<open>'r\<close> of raw JSON messages, the encoding of a cached
  object and the decodings into the four payload types; nothing is said of what a
  decoder makes of a message of another shape. A file holds what the decoding into
  \<^verbatim>\<open>map[string]json.RawMessage\<close> makes of its bytes: a failure, or the key-message
  pairs of the map, in the order a \<^verbatim>\<open>range\<close> visits them.
\<close>

record 'r codec =
  marshal :: "obj \<Rightarrow> error + 'r"
  unmarshal_ppp :: "'r \<Rightarrow> error + PPPData"
  unmarshal_rate :: "'r \<Rightarrow> error + ExchangeRate"
  unmarshal_countries :: "'r \<Rightarrow> error + Country list"
  unmarshal_indicators :: "'r \<Rightarrow> error + Indicator list"

datatype 'r content = Unparsable error | Document "(string \<times> 'r) list"

record 'r filesystem =
  files :: "string \<Rightarrow> 'r content option"
  mkdir_error :: "string \<Rightarrow> error option"
  write_error :: "string \<Rightarrow> error option"
  read_error :: "string \<Rightarrow> error option"

definition ReadFile :: "'r filesystem \<Rightarrow> string \<Rightarrow> error + 'r content" where
  "ReadFile fs filename =
     (case read_error fs filename of
        Some err \<Rightarrow> Inl err
      | None \<Rightarrow>
          (case files fs filename of
             None \<Rightarrow> Inl (Errorf ''open %s: no such file or directory'' [CtxString filename])
           | Some ct \<Rightarrow> Inr ct))"

text \<open>\<^verbatim>\<open>json.MarshalIndent\<close> of the export map: the encoding of every object, or the
  first failure.\<close>

fun marshal_entries :: "'r codec \<Rightarrow> (string \<times> obj) list \<Rightarrow> error + (string \<times> 'r) list" where
  "marshal_entries cd [] = Inr []"
| "marshal_entries cd ((k, x) # rest) =
     (case marshal cd x of
        Inl err \<Rightarrow> Inl err
      | Inr r \<Rightarrow>
          (case marshal_entries cd rest of
             Inl err \<Rightarrow> Inl err
           | Inr rs \<Rightarrow> Inr ((k, r) # rs)))"

definition ExportToFile ::
  "'r codec \<Rightarrow> 'r filesystem \<Rightarrow> Cache \<Rightarrow> int \<Rightarrow> string \<Rightarrow> error option \<times> 'r filesystem" where
  "ExportToFile cd fs c now filename =
     (let its = memory_Items (memory c) now;
          exportData = map (\<lambda>(k, v). (k, Object v)) its
      in case marshal_entries cd exportData of
           Inl err \<Rightarrow> (Some (Wrapf ''failed to marshal cache data: %w'' [] err), fs)
         | Inr data \<Rightarrow>
             (case mkdir_error fs filename of
                Some err \<Rightarrow> (Some (Wrapf ''failed to create directory: %w'' [] err), fs)
              | None \<Rightarrow>
                  (case write_error fs filename of
                     Some err \<Rightarrow> (Some (Wrapf ''failed to write cache file: %w'' [] err), fs)
                   | None \<Rightarrow> (None, fs\<lparr>files := (files fs)(filename \<mapsto> Document data)\<rparr>))))"

text \<open>The body of the import loop: the \<^verbatim>\<open>switch\<close> on the prefix of the key.\<close>

definition import_entry :: "'r codec \<Rightarrow> int \<Rightarrow> string \<Rightarrow> 'r \<Rightarrow> Cache \<Rightarrow> Cache" where
  "import_entry cd now key rawData c =
     (if length key > 4 \<and> take 4 key = ''ppp:'' then
        (case unmarshal_ppp cd rawData of
           Inr ppp \<Rightarrow> c\<lparr>memory := memory_Set (memory c) now key (PPPObj ppp) DefaultExpiration\<rparr>
         | Inl err \<Rightarrow> c)
      else if length key > 5 \<and> take 5 key = ''rate:'' then
        (case unmarshal_rate cd rawData of
           Inr rate \<Rightarrow> c\<lparr>memory := memory_Set (memory c) now key (RateObj rate) DefaultExpiration\<rparr>
         | Inl err \<Rightarrow> c)
      else if key = ''countries:all'' then
        (case unmarshal_countries cd rawData of
           Inr countries \<Rightarrow>
             c\<lparr>memory := memory_Set (memory c) now key (CountriesObj countries) DefaultExpiration\<rparr>
         | Inl err \<Rightarrow> c)
      else if length key > 17 \<and> take 17 key = ''indicators:search'' then
        (case unmarshal_indicators cd rawData of
           Inr indicators \<Rightarrow>
             c\<lparr>memory := memory_Set (memory c) now key (IndicatorsObj indicators) DefaultExpiration\<rparr>
         | Inl err \<Rightarrow> c)
      else c)"

fun import_loop :: "'r codec \<Rightarrow> int \<Rightarrow> (string \<times> 'r) list \<Rightarrow> Cache \<Rightarrow> Cache" where
  "import_loop cd now [] c = c"
| "import_loop cd now ((key, rawData) # rest) c =
     import_loop cd now rest (import_entry cd now key rawData c)"

definition ImportFromFile ::
  "'r codec \<Rightarrow> 'r filesystem \<Rightarrow> Cache \<Rightarrow> int \<Rightarrow> string \<Rightarrow> error option \<times> Cache" where
  "ImportFromFile cd fs c now filename =
     (case ReadFile fs filename of
        Inl err \<Rightarrow> (Some (Wrapf ''failed to read cache file: %w'' [] err), c)
      | Inr (Unparsable err) \<Rightarrow> (Some (Wrapf ''failed to unmarshal cache data: %w'' [] err), c)
      | Inr (Document importData) \<Rightarrow> (None, import_loop cd now importData c))"

definition ExportCache ::
  "'r codec \<Rightarrow> 'r filesystem \<Rightarrow> Client \<Rightarrow> int \<Rightarrow> string \<Rightarrow> error option \<times> 'r filesystem" where
  "ExportCache cd fs c now filename =
     (case live_cache c of
        None \<Rightarrow> (Some (Errorf ''cache is disabled'' []), fs)
      | Some ch \<Rightarrow> ExportToFile cd fs ch now filename)"


definition ClearCache :: "Client \<Rightarrow> Client" where
  "ClearCache c =
     (case live_cache c of
        None \<Rightarrow> c
      | Some ch \<Rightarrow> c\<lparr>cache := Some (Cache_Clear ch)\<rparr>)"

section \<open>Reference definitions for the statements\<close>

text \<open>The fetches that a run over a list of country codes performs, one after the other
  on the same client, with their outcomes.\<close>

fun fetch_each :: "env \<Rightarrow> int \<Rightarrow> Client \<Rightarrow> string list \<Rightarrow> (string \<times> (error + PPPData)) list" where
  "fetch_each ev now c [] = []"
| "fetch_each ev now c (code # codes) =
     (case Client_GetPPP ev now c code of
        (r, c') \<Rightarrow> (code, r) # fetch_each ev now c' codes)"

text \<open>The comparison entry of a fetched observation, without a rank (rank 0).\<close>

definition comparison_of :: "string \<Rightarrow> PPPData \<Rightarrow> CountryComparison" where
  "comparison_of code ppp =
     \<lparr>CountryComparison.Country = code,
      CountryComparison.CountryName = PPPData.CountryName ppp,
      CountryComparison.Factor = PPPData.Factor ppp,
      PercentOfUS = (1 / PPPData.Factor ppp) * 100,
      Rank = 0\<rparr>"

fun successful_entries :: "(string \<times> (error + PPPData)) list \<Rightarrow> CountryComparison list" where
  "successful_entries [] = []"
| "successful_entries ((code, Inl err) # rs) = successful_entries rs"
| "successful_entries ((code, Inr ppp) # rs) = comparison_of code ppp # successful_entries rs"

definition unranked :: "CountryComparison \<Rightarrow> CountryComparison" where
  "unranked e = e\<lparr>Rank := 0\<rparr>"






text \<open>A data point carries an observation: its value is present and positive. The
  observation record made of such a data point.\<close>

definition has_observation :: "IndicatorData \<Rightarrow> bool" where
  "has_observation dp \<longleftrightarrow> (case IndicatorData.Value dp of Some v \<Rightarrow> v > 0 | None \<Rightarrow> False)"

definition observation_of :: "int \<Rightarrow> IndicatorData \<Rightarrow> PPPData" where
  "observation_of now dp =
     to_PPPData now dp (case IndicatorData.Value dp of Some v \<Rightarrow> v | None \<Rightarrow> 0)"

text \<open>The request that \<^verbatim>\<open>GetPPP\<close> sends for a country: the PPP indicator over the
  current year and the ten before it.\<close>

definition ppp_request :: "env \<Rightarrow> int \<Rightarrow> Client \<Rightarrow> string \<Rightarrow> wb_request" where
  "ppp_request ev now c countryCode =
     \<lparr>rq_base = wb_baseURL (worldBank c), rq_country = countryCode,
      rq_indicator = PPPIndicatorCode, rq_start = year_of ev now - 10, rq_end = year_of ev now,
      rq_per_page = 50\<rparr>"

text \<open>The cache lookup of \<^verbatim>\<open>Client.GetPPP\<close>: nothing without a cache.\<close>

definition cached_ppp :: "Client \<Rightarrow> int \<Rightarrow> string \<Rightarrow> PPPData option" where
  "cached_ppp c now countryCode =
     (case live_cache c of Some ch \<Rightarrow> Cache_GetPPP ch now countryCode | None \<Rightarrow> None)"

text \<open>The time-to-live that an entry stored with duration \<open>d\<close> gets, and an instant
  \<open>t2\<close> being within that time of the store at \<open>t1\<close> (an entry without a positive
  time-to-live never expires).\<close>

definition entry_ttl :: "Cache \<Rightarrow> int \<Rightarrow> int" where
  "entry_ttl ch d = (if d = DefaultExpiration then defaultExpiration (memory ch) else d)"

definition within_ttl :: "int \<Rightarrow> int \<Rightarrow> int \<Rightarrow> bool" where
  "within_ttl t1 t2 ttl \<longleftrightarrow> (if ttl > 0 then t2 \<le> t1 + ttl else True)"








text \<open>A codec is faithful when each decoder gives back what the encoder was given, as
  the JSON library does for the payload types (finite numbers, valid UTF-8 strings).\<close>

definition codec_faithful :: "'r codec \<Rightarrow> bool" where
  "codec_faithful cd \<longleftrightarrow>
     (\<forall>x r. marshal cd (PPPObj x) = Inr r \<longrightarrow> unmarshal_ppp cd r = Inr x)
     \<and> (\<forall>x r. marshal cd (RateObj x) = Inr r \<longrightarrow> unmarshal_rate cd r = Inr x)
     \<and> (\<forall>x r. marshal cd (CountriesObj x) = Inr r \<longrightarrow> unmarshal_countries cd r = Inr x)
     \<and> (\<forall>x r. marshal cd (IndicatorsObj x) = Inr r \<longrightarrow> unmarshal_indicators cd r = Inr x)"

text \<open>The object that the import stores for a key and a raw message, if any.\<close>

definition decode :: "'r codec \<Rightarrow> string \<Rightarrow> 'r \<Rightarrow> obj option" where
  "decode cd key rawData =
     (if length key > 4 \<and> take 4 key = ''ppp:'' then
        (case unmarshal_ppp cd rawData of Inr x \<Rightarrow> Some (PPPObj x) | Inl err \<Rightarrow> None)
      else if length key > 5 \<and> take 5 key = ''rate:'' then
        (case unmarshal_rate cd rawData of Inr x \<Rightarrow> Some (RateObj x) | Inl err \<Rightarrow> None)
      else if key = ''countries:all'' then
        (case unmarshal_countries cd rawData of Inr x \<Rightarrow> Some (CountriesObj x) | Inl err \<Rightarrow> None)
      else if length key > 17 \<and> take 17 key = ''indicators:search'' then
        (case unmarshal_indicators cd rawData of Inr x \<Rightarrow> Some (IndicatorsObj x) | Inl err \<Rightarrow> None)
      else None)"

section \<open>Concrete providers for the examples\<close>

text \<open>
  An environment whose indicator provider answers every request for a country with a
  fixed newest-first series of (year, value) pairs, and whose rate provider answers
  with a fixed table of rates; the year is 2024.
\<close>

definition point :: "string \<Rightarrow> string \<times> float64 option \<Rightarrow> IndicatorData" where
  "point code yv =
     \<lparr>Indicator = \<lparr>IndicatorInfo.ID = PPPIndicatorCode, IndicatorInfo.Value = ''PPP conversion factor''\<rparr>,
      IndicatorData.Country = \<lparr>CountryInfo.ID = code, CountryInfo.Value = code\<rparr>,
      CountryISO3Code = code,
      Date = fst yv,
      IndicatorData.Value = snd yv,
      IndicatorData.Unit = [],
      ObsStatus = [],
      Decimal = 2\<rparr>"

definition fixed_env ::
  "(string \<Rightarrow> (string \<times> float64 option) list)
     \<Rightarrow> (string \<Rightarrow> (string \<Rightarrow> float64 option) option) \<Rightarrow> env" where
  "fixed_env series rates =
     \<lparr>wb_serve = (\<lambda>n rq. WBResponse 200 [] (Points (map (point (rq_country rq)) (series (rq_country rq))))),
      rate_serve = (\<lambda>n rq. RateResponse 200 [] (RateDoc None rates)),
      year_of = (\<lambda>t. 2024),
      parse_date = (\<lambda>s. TimeZero),
      format_date = (\<lambda>t. ''2024-01-01'')\<rparr>"

definition usd_rates :: "(string \<times> float64) list \<Rightarrow> string \<Rightarrow> (string \<Rightarrow> float64 option) option" where
  "usd_rates quotes from = (if from = ''usd'' then Some (map_of quotes) else None)"

definition try_series :: "string \<Rightarrow> (string \<times> float64 option) list" where
  "try_series code = [(''2024'', None), (''2023'', Some 1)]"


definition market_env :: env where
  "market_env = fixed_env try_series (usd_rates [(''try'', 4)])"


definition plain_client :: Client where
  "plain_client = NewClient [WithoutCache]"

text \<open>Three countries, two of them with the same factor, and no data for any other.\<close>

definition tie_series :: "string \<Rightarrow> (string \<times> float64 option) list" where
  "tie_series code =
     (if code = ''AR'' then [(''2023'', Some 2)]
      else if code = ''BR'' then [(''2023'', Some 2)]
      else if code = ''CN'' then [(''2023'', Some 1)]
      else [(''2023'', None)])"

definition tie_env :: env where
  "tie_env = fixed_env tie_series (usd_rates [(''ars'', 4), (''brl'', 4), (''cny'', 4), (''try'', 4)])"

definition the_ppp :: "string \<Rightarrow> float64 \<Rightarrow> PPPData" where
  "the_ppp code v =
     \<lparr>CountryCode = code, PPPData.CountryName = code, Year = 2023, PPPData.Factor = v,
      PPPData.LastUpdated = TimeAt 0, PPPData.Source = ''World Bank''\<rparr>"

definition tier_series :: "string \<Rightarrow> (string \<times> float64 option) list" where
  "tier_series code = [(''2024'', Some 0), (''2023'', Some 0.3), (''2022'', Some 0.25)]"

definition tier_env :: env where
  "tier_env = fixed_env tier_series (usd_rates [(''try'', 4)])"



text \<open>A codec whose raw messages are the objects themselves, and an empty file system
  that accepts every write.\<close>

definition plain_codec :: "obj codec" where
  "plain_codec =
     \<lparr>marshal = Inr,
      unmarshal_ppp = (\<lambda>r. case r of PPPObj x \<Rightarrow> Inr x | _ \<Rightarrow> Inl (Errorf ''cannot unmarshal'' [])),
      unmarshal_rate = (\<lambda>r. case r of RateObj x \<Rightarrow> Inr x | _ \<Rightarrow> Inl (Errorf ''cannot unmarshal'' [])),
      unmarshal_countries =
        (\<lambda>r. case r of CountriesObj x \<Rightarrow> Inr x | _ \<Rightarrow> Inl (Errorf ''cannot unmarshal'' [])),
      unmarshal_indicators =
        (\<lambda>r. case r of IndicatorsObj x \<Rightarrow> Inr x | _ \<Rightarrow> Inl (Errorf ''cannot unmarshal'' []))\<rparr>"

definition empty_fs :: "obj filesystem" where
  "empty_fs =
     \<lparr>files = (\<lambda>name. None), mkdir_error = (\<lambda>name. None), write_error = (\<lambda>name. None),
      read_error = (\<lambda>name. None)\<rparr>"

text \<open>A cache with an observation for TR, a rate, and an observation stored under the
  empty country code.\<close>

definition sample_cache :: Cache where
  "sample_cache =
     Cache_SetPPP
       (Cache_SetExchangeRate
          (Cache_SetPPP (NewCache Hour (Hour * 2)) 0 ''TR'' (the_ppp ''TR'' 11.5) Hour)
          0 ''USD'' ''TRY'' \<lparr>From = ''USD'', To = ''TRY'', Rate = 40, ExchangeRate.LastUpdated = TimeZero\<rparr> Hour)
       0 [] (the_ppp [] 7) Hour"



section \<open>Theorems\<close>

lemma pair_fst: "fst x = a \<Longrightarrow> x = (a, snd x)"
  by (cases x) simp

subsection \<open>C1: the recommendation\<close>




subsection \<open>The sort of the comparison\<close>








lemma sort_outer_stop: "\<not> i < length xs \<Longrightarrow> sort_outer i xs = xs"
  by (subst sort_outer.simps) simp



subsection \<open>C4 and C10: the comparison of countries\<close>

lemma collect_comparisons_unranked:
  "map unranked (fst (collect_comparisons ev now c i codes acc))
     = map unranked acc @ successful_entries (fetch_each ev now c codes)"
proof (induction codes arbitrary: c i acc)
  case Nil
  then show ?case by simp
next
  case (Cons code codes)
  show ?case
  proof (cases "Client_GetPPP ev now c code")
    case (Pair r c')
    then show ?thesis
      using Cons.IH by (cases r) (simp_all add: unranked_def comparison_of_def)
  qed
qed






lemma ComparePPP_unfold:
  "ComparePPP ev now c codes =
     (Inr (update_ranks 0 (sort_outer 0 (fst (collect_comparisons ev now c 0 codes [])))),
      snd (collect_comparisons ev now c 0 codes []))"
  by (simp add: ComparePPP_def split: prod.splits)




lemma successful_entries_all_failed:
  "list_all (\<lambda>r. isl (snd r)) rs \<Longrightarrow> successful_entries rs = []"
  by (induction rs rule: successful_entries.induct) simp_all

text \<open>
  C10. \<open>ComparePPP\<close> never returns an error. For every input list it returns a list of
  comparisons; the list is empty for the empty input and also when every fetch of a
  non-empty input fails, so the two cases give the same result.
\<close>

theorem ComparePPP_never_fails:
  "(\<exists>rs c'. ComparePPP ev now c codes = (Inr rs, c'))
   \<and> fst (ComparePPP ev now c []) = Inr []
   \<and> (list_all (\<lambda>r. isl (snd r)) (fetch_each ev now c codes)
        \<longrightarrow> fst (ComparePPP ev now c codes) = Inr [])"
proof -
  have some: "\<exists>rs c'. ComparePPP ev now c codes = (Inr rs, c')"
    by (simp add: ComparePPP_unfold)
  have empty: "fst (ComparePPP ev now c []) = Inr []"
    by (simp add: ComparePPP_unfold sort_outer_stop)
  have failed: "fst (ComparePPP ev now c codes) = Inr []"
    if "list_all (\<lambda>r. isl (snd r)) (fetch_each ev now c codes)"
  proof -
    have "map unranked (fst (collect_comparisons ev now c 0 codes [])) = []"
      using that by (simp add: collect_comparisons_unranked successful_entries_all_failed)
    then have "fst (collect_comparisons ev now c 0 codes []) = []"
      by simp
    then show ?thesis
      by (simp add: ComparePPP_unfold sort_outer_stop)
  qed
  show ?thesis
    using some empty failed by blast
qed

text \<open>The theorem at the list XX, YY, for neither of which the provider has data.\<close>

theorem ComparePPP_never_fails_witness:
  "list_all (\<lambda>r. isl (snd r)) (fetch_each tie_env 0 plain_client [''XX'', ''YY''])
   \<and> fst (ComparePPP tie_env 0 plain_client [''XX'', ''YY'']) = Inr []
   \<and> fst (ComparePPP tie_env 0 plain_client []) = Inr []"
proof -
  have e: "list_all (\<lambda>r. isl (snd r)) (fetch_each tie_env 0 plain_client [''XX'', ''YY''])"
    by code_simp
  from ComparePPP_never_fails [of tie_env 0 plain_client "[''XX'', ''YY'']"] e
  show ?thesis
    by (simp add: ComparePPP_unfold sort_outer_stop)
qed

subsection \<open>C5: tiered pricing\<close>




subsection \<open>C7: trend analysis\<close>





subsection \<open>C2: the most recent positive observation\<close>

lemma first_positive_find:
  "first_positive now dps = map_option (observation_of now) (find has_observation dps)"
  by (induction dps) (simp_all add: has_observation_def observation_of_def split: option.splits)

lemma has_observation_Factor: "has_observation dp \<Longrightarrow> PPPData.Factor (observation_of now dp) > 0"
  by (simp add: has_observation_def observation_of_def to_PPPData_def split: option.splits)

lemma WorldBank_GetPPP_points:
  assumes "wb_serve ev (length (wb_requests w))
             \<lparr>rq_base = wb_baseURL w, rq_country = countryCode, rq_indicator = PPPIndicatorCode,
              rq_start = year_of ev now - 10, rq_end = year_of ev now, rq_per_page = 50\<rparr>
           = WBResponse 200 body (Points dps)"
  shows "fst (WorldBank_GetPPP ev now w countryCode) =
           (case find has_observation dps of
              Some dp \<Rightarrow> Inr (observation_of now dp)
            | None \<Rightarrow> Inl (Errorf ''no PPP data available for country %s'' [CtxString countryCode]))"
  using assms
  by (simp add: WorldBank_GetPPP_def wb_get_def wb_points_def Let_def first_positive_find
      split: option.splits)

lemma Client_GetPPP_miss:
  "cached_ppp c now countryCode = None \<Longrightarrow>
   fst (Client_GetPPP ev now c countryCode) = fst (WorldBank_GetPPP ev now (worldBank c) countryCode)"
  by (simp add: Client_GetPPP_def cached_ppp_def split: prod.splits sum.splits option.splits)

text \<open>
  C2. For every country code for which the cache has no entry, when the provider
  answers the request for the last ten years with a series of data points, newest first,
  \<open>Client.GetPPP\<close> returns the observation of the first data point of the series whose
  value is present and strictly positive: data points with a null or a non-positive value
  are skipped, and the returned factor is above 0. If the series has no such data point
  the call fails. The error is the untyped one of \<^verbatim>\<open>fmt.Errorf\<close>, with the message
  that no PPP data is available for the country; it does not carry the code
  \<^verbatim>\<open>NO_DATA\<close> nor wrap \<^verbatim>\<open>ErrNoData\<close>, and \<open>IsNoDataError\<close> does not hold of it.
\<close>

theorem GetPPP_most_recent_positive:
  assumes "cached_ppp c now countryCode = None"
      and "wb_serve ev (length (wb_requests (worldBank c))) (ppp_request ev now c countryCode)
             = WBResponse 200 body (Points dps)"
  shows "case find has_observation dps of
           Some dp \<Rightarrow>
             fst (Client_GetPPP ev now c countryCode) = Inr (observation_of now dp)
             \<and> PPPData.Factor (observation_of now dp) > 0
         | None \<Rightarrow>
             fst (Client_GetPPP ev now c countryCode)
               = Inl (Errorf ''no PPP data available for country %s'' [CtxString countryCode])
             \<and> \<not> IsNoDataError
                   (Errorf ''no PPP data available for country %s'' [CtxString countryCode])"
proof (cases "find has_observation dps")
  case None
  then show ?thesis
    using assms WorldBank_GetPPP_points [of ev "worldBank c" countryCode now body dps]
    by (simp add: Client_GetPPP_miss ppp_request_def IsNoDataError_def)
next
  case (Some dp)
  then have "has_observation dp"
    by (auto simp: find_Some_iff)
  then show ?thesis
    using Some assms WorldBank_GetPPP_points [of ev "worldBank c" countryCode now body dps]
    by (simp add: Client_GetPPP_miss ppp_request_def has_observation_Factor)
qed

text \<open>The theorem at a series with the values 0 for 2024, 0.3 for 2023 and 0.25 for 2022:
  the observation of 2023 is returned.\<close>

theorem GetPPP_most_recent_positive_witness:
  "cached_ppp plain_client 0 ''TR'' = None
   \<and> wb_serve tier_env (length (wb_requests (worldBank plain_client)))
        (ppp_request tier_env 0 plain_client ''TR'')
       = WBResponse 200 []
           (Points [point ''TR'' (''2024'', Some 0), point ''TR'' (''2023'', Some 0.3),
                    point ''TR'' (''2022'', Some 0.25)])
   \<and> fst (Client_GetPPP tier_env 0 plain_client ''TR'') = Inr ((the_ppp ''TR'' 0.3)\<lparr>Year := 2023\<rparr>)"
proof -
  let ?dps = "[point ''TR'' (''2024'', Some 0), point ''TR'' (''2023'', Some 0.3),
               point ''TR'' (''2022'', Some 0.25)]"
  have m: "cached_ppp plain_client 0 ''TR'' = None"
    by code_simp
  have r: "wb_serve tier_env (length (wb_requests (worldBank plain_client)))
             (ppp_request tier_env 0 plain_client ''TR'') = WBResponse 200 [] (Points ?dps)"
    by code_simp
  have f: "find has_observation ?dps = Some (point ''TR'' (''2023'', Some 0.3))"
    by (simp add: has_observation_def point_def)
  have o: "observation_of 0 (point ''TR'' (''2023'', Some 0.3)) = (the_ppp ''TR'' 0.3)\<lparr>Year := 2023\<rparr>"
    by code_simp
  from GetPPP_most_recent_positive [OF m r]
  show ?thesis
    using m r f o by simp
qed

text \<open>A country whose series has only a null value: the call fails, and the error is
  not a no-data error for \<open>IsNoDataError\<close>.\<close>

theorem GetPPP_NoData_counterexample:
  "map_sum IsNoDataError PPPData.Factor (fst (Client_GetPPP tie_env 0 plain_client ''XX'')) = Inl False"
  by code_simp

subsection \<open>C3: the cache serves the second call\<close>

lemma WorldBank_GetPPP_requests:
  "wb_requests (snd (WorldBank_GetPPP ev now w countryCode))
     = wb_requests w @
         [\<lparr>rq_base = wb_baseURL w, rq_country = countryCode, rq_indicator = PPPIndicatorCode,
           rq_start = year_of ev now - 10, rq_end = year_of ev now, rq_per_page = 50\<rparr>]"
  by (simp add: WorldBank_GetPPP_def wb_get_def Let_def split: sum.splits option.splits)

lemma memory_Get_Set:
  "within_ttl t1 t2 (if d = DefaultExpiration then defaultExpiration m else d) \<Longrightarrow>
   memory_Get (memory_Set m t1 k x d) t2 k = Some x"
  by (auto simp: memory_Get_def memory_Set_def Let_def update_conv' expired_def within_ttl_def
      split: if_splits)

lemma Cache_GetPPP_SetPPP:
  "within_ttl t1 t2 (entry_ttl ch d) \<Longrightarrow>
   Cache_GetPPP (Cache_SetPPP ch t1 countryCode ppp d) t2 countryCode = Some ppp"
  by (simp add: Cache_GetPPP_def Cache_SetPPP_def entry_ttl_def memory_Get_Set)

text \<open>
  C3. On a client with the cache enabled, let a first call of \<open>GetPPP\<close> for a country at
  \<open>t1\<close> miss the cache and its provider call succeed with an observation. Then the first
  call returns the observation and issues one provider request, and a second call for the
  country at \<open>t2\<close>, within the time-to-live of the stored entry, returns the same
  observation and issues no request: the two calls issue exactly one.
\<close>

theorem GetPPP_twice_one_fetch:
  assumes "live_cache c = Some ch"
      and "Cache_GetPPP ch t1 countryCode = None"
      and "fst (WorldBank_GetPPP ev t1 (worldBank c) countryCode) = Inr ppp"
      and "within_ttl t1 t2 (entry_ttl ch (cacheDuration c))"
  shows "fst (Client_GetPPP ev t1 c countryCode) = Inr ppp
     \<and> fst (Client_GetPPP ev t2 (snd (Client_GetPPP ev t1 c countryCode)) countryCode) = Inr ppp
     \<and> wb_requests (worldBank (snd (Client_GetPPP ev t1 c countryCode)))
         = wb_requests (worldBank c) @ [ppp_request ev t1 c countryCode]
     \<and> wb_requests (worldBank
           (snd (Client_GetPPP ev t2 (snd (Client_GetPPP ev t1 c countryCode)) countryCode)))
         = wb_requests (worldBank c) @ [ppp_request ev t1 c countryCode]"
proof -
  obtain w where fetch: "WorldBank_GetPPP ev t1 (worldBank c) countryCode = (Inr ppp, w)"
    using assms(3) by (cases "WorldBank_GetPPP ev t1 (worldBank c) countryCode") simp
  let ?c1 = "c\<lparr>worldBank := w,
               cache := Some (Cache_SetPPP ch t1 countryCode ppp (cacheDuration c))\<rparr>"
  have first: "Client_GetPPP ev t1 c countryCode = (Inr ppp, ?c1)"
    using assms(1,2) fetch by (simp add: Client_GetPPP_def)
  have live: "live_cache ?c1 = Some (Cache_SetPPP ch t1 countryCode ppp (cacheDuration c))"
    using assms(1) by (simp add: live_cache_def split: if_splits)
  have hit: "Cache_GetPPP (Cache_SetPPP ch t1 countryCode ppp (cacheDuration c)) t2 countryCode
               = Some ppp"
    using assms(4) by (rule Cache_GetPPP_SetPPP)
  have second: "Client_GetPPP ev t2 ?c1 countryCode = (Inr ppp, ?c1)"
    using live hit by (simp add: Client_GetPPP_def)
  have log: "wb_requests (worldBank ?c1) = wb_requests (worldBank c) @ [ppp_request ev t1 c countryCode]"
    using WorldBank_GetPPP_requests [of ev t1 "worldBank c" countryCode] fetch
    by (simp add: ppp_request_def)
  show ?thesis
    using first second log by simp
qed

text \<open>The theorem on a new client (cache of 24 hours), for two calls one hour apart.\<close>

theorem GetPPP_twice_one_fetch_witness:
  "live_cache (NewClient []) = Some (NewCache (24 * Hour) (24 * Hour * 2))
   \<and> Cache_GetPPP (NewCache (24 * Hour) (24 * Hour * 2)) 0 ''TR'' = None
   \<and> fst (WorldBank_GetPPP tier_env 0 (worldBank (NewClient [])) ''TR'')
       = Inr ((the_ppp ''TR'' 0.3)\<lparr>Year := 2023\<rparr>)
   \<and> within_ttl 0 Hour (entry_ttl (NewCache (24 * Hour) (24 * Hour * 2)) (cacheDuration (NewClient [])))
   \<and> fst (Client_GetPPP tier_env Hour (snd (Client_GetPPP tier_env 0 (NewClient []) ''TR'')) ''TR'')
       = Inr ((the_ppp ''TR'' 0.3)\<lparr>Year := 2023\<rparr>)
   \<and> length (wb_requests (worldBank
        (snd (Client_GetPPP tier_env Hour (snd (Client_GetPPP tier_env 0 (NewClient []) ''TR'')) ''TR''))))
       = 1"
proof -
  have a: "live_cache (NewClient []) = Some (NewCache (24 * Hour) (24 * Hour * 2))"
    by (simp add: live_cache_def NewClient_def)
  have b: "Cache_GetPPP (NewCache (24 * Hour) (24 * Hour * 2)) 0 ''TR'' = None"
    by (simp add: Cache_GetPPP_def NewCache_def memory_New_def memory_Get_def)
  have c: "fst (WorldBank_GetPPP tier_env 0 (worldBank (NewClient [])) ''TR'')
       = Inr ((the_ppp ''TR'' 0.3)\<lparr>Year := 2023\<rparr>)"
    by code_simp
  have d: "within_ttl 0 Hour (entry_ttl (NewCache (24 * Hour) (24 * Hour * 2)) (cacheDuration (NewClient [])))"
    by (simp add: within_ttl_def entry_ttl_def NewClient_def Hour_def DefaultExpiration_def)
  have e: "wb_requests (worldBank (NewClient [])) = []"
    by (simp add: NewClient_def NewWorldBankClient_def)
  from GetPPP_twice_one_fetch [OF a b c d]
  show ?thesis
    using a b c d e by simp
qed

subsection \<open>C9: the market basket\<close>

lemma basket_loop_invalid:
  "\<not> list_all (\<lambda>(item, price). ValidateAmount price = None) items \<Longrightarrow>
   isl (basket_loop factor rate toCurrency items results)"
  by (induction items arbitrary: results) (auto split: option.splits)

text \<open>The first half of C9 holds: with an item whose amount is invalid the call returns
  an error and no price map, whatever the order in which the items are visited.\<close>

lemma CalculateMarketBasket_invalid_item:
  "\<not> list_all (\<lambda>(item, price). ValidateAmount price = None) items \<Longrightarrow>
   isl (fst (CalculateMarketBasket ev now c items fromCurrency toCountry))"
  by (simp add: CalculateMarketBasket_def Let_def basket_loop_invalid
      split: option.splits prod.splits sum.splits)

text \<open>
  C9. The second half fails: the amounts of the items are validated inside the loop that
  prices them, after the indicator and the rate have been fetched. On a new client, a
  basket with an item of amount 0 is rejected with the validation error only after one
  request to each provider (and both answers are in the cache afterwards).
\<close>

theorem CalculateMarketBasket_validates_after_fetch:
  "fst (CalculateMarketBasket market_env 0 (NewClient []) [(''Basic'', 9.99), (''Broken'', 0)]
          ''USD'' ''TR'')
     = Inl (Wrapf ''invalid price for item %s: %w'' [CtxString ''Broken'']
              (PPPError ''INVALID_INPUT'' ''amount cannot be zero'' (Some ErrInvalidAmount)
                 [(''amount'', CtxFloat 0)]))
   \<and> length (wb_requests (worldBank (snd (CalculateMarketBasket market_env 0 (NewClient [])
          [(''Basic'', 9.99), (''Broken'', 0)] ''USD'' ''TR'')))) = 1
   \<and> length (cur_requests (currency (snd (CalculateMarketBasket market_env 0 (NewClient [])
          [(''Basic'', 9.99), (''Broken'', 0)] ''USD'' ''TR'')))) = 1"
  by code_simp

subsection \<open>C8: recommendations for several countries\<close>



















subsection \<open>C6: export and import of the cache\<close>

text \<open>The import loop stores, under each key of a document with distinct keys, the
  object decoded for it and leaves the other keys alone; the export writes, for each live
  entry, its key with the encoding of its object.\<close>

lemma import_entry_decode:
  "import_entry cd now key rawData c =
     (case decode cd key rawData of
        Some x \<Rightarrow> c\<lparr>memory := memory_Set (memory c) now key x DefaultExpiration\<rparr>
      | None \<Rightarrow> c)"
  by (simp add: import_entry_def decode_def split: sum.splits)

lemma defaultExpiration_Set [simp]:
  "defaultExpiration (memory_Set m now k x d) = defaultExpiration m"
  by (simp add: memory_Set_def Let_def)

lemma defaultExpiration_import_entry [simp]:
  "defaultExpiration (memory (import_entry cd now key rawData c)) = defaultExpiration (memory c)"
  by (simp add: import_entry_decode split: option.splits)

lemma memory_Get_Set_other:
  "k' \<noteq> k \<Longrightarrow> memory_Get (memory_Set m now k' x d) t k = memory_Get m t k"
  by (simp add: memory_Get_def memory_Set_def Let_def update_conv')

lemma memory_Get_import_entry_other:
  "key \<noteq> k \<Longrightarrow> memory_Get (memory (import_entry cd now key rawData c)) t k = memory_Get (memory c) t k"
  by (simp add: import_entry_decode memory_Get_Set_other split: option.splits)

lemma import_loop_other:
  "k \<notin> set (map fst doc) \<Longrightarrow>
   memory_Get (memory (import_loop cd now doc c)) t k = memory_Get (memory c) t k"
proof (induction doc arbitrary: c)
  case Nil
  then show ?case by simp
next
  case (Cons e doc)
  obtain key rawData where e: "e = (key, rawData)" by (cases e)
  with Cons show ?case
    by (auto simp: memory_Get_import_entry_other)
qed

lemma import_loop_stored:
  assumes "distinct (map fst doc)"
      and "map_of doc k = Some r"
      and "decode cd k r = Some x"
      and "within_ttl now t (defaultExpiration (memory c))"
  shows "memory_Get (memory (import_loop cd now doc c)) t k = Some x"
  using assms
proof (induction doc arbitrary: c)
  case Nil
  then show ?case by simp
next
  case (Cons e doc)
  obtain key rawData where e: "e = (key, rawData)" by (cases e)
  show ?case
  proof (cases "key = k")
    case True
    then have r: "rawData = r" and out: "k \<notin> set (map fst doc)"
      using Cons.prems(1,2) e by auto
    have "memory_Get (memory (import_entry cd now k r c)) t k = Some x"
      using Cons.prems(3,4)
      by (simp add: import_entry_decode memory_Get_Set DefaultExpiration_def)
    then show ?thesis
      using e True r out by (simp add: import_loop_other)
  next
    case False
    then have "map_of doc k = Some r" and "distinct (map fst doc)"
      using Cons.prems(1,2) e by auto
    then show ?thesis
      using Cons.IH [of "import_entry cd now key rawData c"] Cons.prems(3,4) e by simp
  qed
qed

lemma marshal_entries_keys:
  "marshal_entries cd xs = Inr doc \<Longrightarrow> map fst doc = map fst xs"
  by (induction xs arbitrary: doc rule: marshal_entries.induct) (auto split: sum.splits)

lemma marshal_entries_mem:
  "marshal_entries cd xs = Inr doc \<Longrightarrow> (k, x) \<in> set xs \<Longrightarrow>
   \<exists>r. (k, r) \<in> set doc \<and> marshal cd x = Inr r"
proof (induction xs arbitrary: doc)
  case Nil
  then show ?case by simp
next
  case (Cons e xs)
  obtain k' x' where e: "e = (k', x')" by (cases e)
  from Cons.prems(1) e obtain r' rs where
    m: "marshal cd x' = Inr r'" "marshal_entries cd xs = Inr rs" "doc = (k', r') # rs"
    by (auto split: sum.splits)
  show ?case
  proof (cases "(k, x) = (k', x')")
    case True
    then show ?thesis using m by auto
  next
    case False
    then have "(k, x) \<in> set xs"
      using Cons.prems(2) e by auto
    from Cons.IH [OF m(2) this] show ?thesis
      using m(3) by auto
  qed
qed

lemma exported_lookup:
  assumes "distinct (map fst (entries m))"
      and "marshal_entries cd (map (\<lambda>(k, v). (k, Object v)) (memory_Items m now)) = Inr doc"
      and "memory_Get m now k = Some x"
  shows "distinct (map fst doc) \<and> (\<exists>r. map_of doc k = Some r \<and> marshal cd x = Inr r)"
proof -
  let ?live = "memory_Items m now"
  have keys: "map fst doc = map fst ?live"
    using marshal_entries_keys [OF assms(2)] by (simp add: comp_def case_prod_unfold)
  have dl: "distinct (map fst ?live)"
    using assms(1) by (simp add: memory_Items_def distinct_map_filter)
  then have d: "distinct (map fst doc)"
    using keys by simp
  from assms(3) obtain it where it: "map_of (entries m) k = Some it" "\<not> expired now it" "Object it = x"
    by (auto simp: memory_Get_def split: option.splits if_splits)
  then have "(k, it) \<in> set ?live"
    by (auto simp: memory_Items_def dest: map_of_SomeD)
  then have "(k, x) \<in> set (map (\<lambda>(k, v). (k, Object v)) ?live)"
    using it(3) by force
  from marshal_entries_mem [OF assms(2) this]
  obtain r where "(k, r) \<in> set doc" "marshal cd x = Inr r"
    by blast
  then show ?thesis
    using d by auto
qed

lemma decode_ppp:
  "country \<noteq> [] \<Longrightarrow> unmarshal_ppp cd r = Inr x \<Longrightarrow> decode cd (CacheKeyPPP country) r = Some (PPPObj x)"
  by (simp add: decode_def CacheKeyPPP_def)

lemma decode_rate:
  "unmarshal_rate cd r = Inr x \<Longrightarrow> decode cd (CacheKeyExchangeRate from to) r = Some (RateObj x)"
  by (simp add: decode_def CacheKeyExchangeRate_def)

lemma decode_countries:
  "unmarshal_countries cd r = Inr x \<Longrightarrow> decode cd CacheKeyCountries r = Some (CountriesObj x)"
  by (simp add: decode_def CacheKeyCountries_def)

lemma decode_indicators:
  "unmarshal_indicators cd r = Inr x \<Longrightarrow> decode cd (CacheKeyIndicators search) r = Some (IndicatorsObj x)"
  by (simp add: decode_def CacheKeyIndicators_def)

lemma ExportToFile_written:
  assumes "ExportToFile cd fs c now filename = (None, fs')"
  shows "\<exists>doc. marshal_entries cd (map (\<lambda>(k, v). (k, Object v)) (memory_Items (memory c) now)) = Inr doc
           \<and> files fs' filename = Some (Document doc)
           \<and> read_error fs' = read_error fs"
  using assms
  by (auto simp: ExportToFile_def Let_def split: sum.splits option.splits)

text \<open>
  C6. Let a cache be exported to a file at \<open>t1\<close> and the file be imported into a fresh
  cache at \<open>t2\<close>, with a JSON codec that decodes what it encoded. Then the import
  succeeds, and at every \<open>t3\<close> within the fresh cache's default time-to-live each getter
  that found a value in the first cache at \<open>t1\<close> finds the same value in the second:
  \<open>GetPPP\<close> for every non-empty country code, \<open>GetExchangeRate\<close> for every pair of
  currencies, \<open>GetCountries\<close>, and \<open>GetIndicators\<close> for every query. (The import skips
  the key \<^verbatim>\<open>ppp:\<close> of the empty country code: see the counterexample.)
\<close>

theorem export_import_roundtrip:
  assumes "codec_faithful cd"
      and "distinct (map fst (entries (memory c)))"
      and "ExportToFile cd fs c t1 filename = (None, fs')"
      and "read_error fs filename = None"
      and "within_ttl t2 t3 (defaultExpiration (memory (NewCache de ci)))"
  shows "\<exists>c'. ImportFromFile cd fs' (NewCache de ci) t2 filename = (None, c')
      \<and> (\<forall>country v. country \<noteq> [] \<and> Cache_GetPPP c t1 country = Some v
            \<longrightarrow> Cache_GetPPP c' t3 country = Some v)
      \<and> (\<forall>from to v. Cache_GetExchangeRate c t1 from to = Some v
            \<longrightarrow> Cache_GetExchangeRate c' t3 from to = Some v)
      \<and> (\<forall>v. Cache_GetCountries c t1 = Some v \<longrightarrow> Cache_GetCountries c' t3 = Some v)
      \<and> (\<forall>search v. Cache_GetIndicators c t1 search = Some v
            \<longrightarrow> Cache_GetIndicators c' t3 search = Some v)"
proof -
  from ExportToFile_written [OF assms(3)] obtain doc where
    doc: "marshal_entries cd (map (\<lambda>(k, v). (k, Object v)) (memory_Items (memory c) t1)) = Inr doc"
    and written: "files fs' filename = Some (Document doc)"
    and rd: "read_error fs' = read_error fs"
    by blast
  let ?c' = "import_loop cd t2 doc (NewCache de ci)"
  have imp: "ImportFromFile cd fs' (NewCache de ci) t2 filename = (None, ?c')"
    using written rd assms(4) by (simp add: ImportFromFile_def ReadFile_def)
  have stored: "memory_Get (memory ?c') t3 k = Some x"
    if "memory_Get (memory c) t1 k = Some x" and "\<And>r. marshal cd x = Inr r \<Longrightarrow> decode cd k r = Some x"
    for k x
  proof -
    from exported_lookup [OF assms(2) doc that(1)] obtain r where
      "distinct (map fst doc)" "map_of doc k = Some r" "marshal cd x = Inr r"
      by blast
    then show ?thesis
      using that(2) assms(5) by (intro import_loop_stored [of doc k r]) simp_all
  qed
  have ppp: "Cache_GetPPP ?c' t3 country = Some v"
    if "country \<noteq> []" "Cache_GetPPP c t1 country = Some v" for country v
  proof -
    have "memory_Get (memory c) t1 (CacheKeyPPP country) = Some (PPPObj v)"
      using that(2) by (simp add: Cache_GetPPP_def split: option.splits obj.splits)
    then have "memory_Get (memory ?c') t3 (CacheKeyPPP country) = Some (PPPObj v)"
      using assms(1) that(1) by (intro stored) (simp_all add: codec_faithful_def decode_ppp)
    then show ?thesis
      by (simp add: Cache_GetPPP_def)
  qed
  have rate: "Cache_GetExchangeRate ?c' t3 src dst = Some v"
    if "Cache_GetExchangeRate c t1 src dst = Some v" for src dst v
  proof -
    have "memory_Get (memory c) t1 (CacheKeyExchangeRate src dst) = Some (RateObj v)"
      using that by (simp add: Cache_GetExchangeRate_def split: option.splits obj.splits)
    then have "memory_Get (memory ?c') t3 (CacheKeyExchangeRate src dst) = Some (RateObj v)"
      using assms(1) by (intro stored) (simp_all add: codec_faithful_def decode_rate)
    then show ?thesis
      by (simp add: Cache_GetExchangeRate_def)
  qed
  have countries: "Cache_GetCountries ?c' t3 = Some v"
    if "Cache_GetCountries c t1 = Some v" for v
  proof -
    have "memory_Get (memory c) t1 CacheKeyCountries = Some (CountriesObj v)"
      using that by (simp add: Cache_GetCountries_def split: option.splits obj.splits)
    then have "memory_Get (memory ?c') t3 CacheKeyCountries = Some (CountriesObj v)"
      using assms(1) by (intro stored) (simp_all add: codec_faithful_def decode_countries)
    then show ?thesis
      by (simp add: Cache_GetCountries_def)
  qed
  have indicators: "Cache_GetIndicators ?c' t3 search = Some v"
    if "Cache_GetIndicators c t1 search = Some v" for search v
  proof -
    have "memory_Get (memory c) t1 (CacheKeyIndicators search) = Some (IndicatorsObj v)"
      using that by (simp add: Cache_GetIndicators_def split: option.splits obj.splits)
    then have "memory_Get (memory ?c') t3 (CacheKeyIndicators search) = Some (IndicatorsObj v)"
      using assms(1) by (intro stored) (simp_all add: codec_faithful_def decode_indicators)
    then show ?thesis
      by (simp add: Cache_GetIndicators_def)
  qed
  show ?thesis
    using imp ppp rate countries indicators by blast
qed

text \<open>The theorem at a cache with an observation for TR and a rate for USD to TRY.\<close>

theorem export_import_roundtrip_witness:
  "codec_faithful plain_codec
   \<and> distinct (map fst (entries (memory sample_cache)))
   \<and> fst (ExportToFile plain_codec empty_fs sample_cache 0 ''cache.json'') = None
   \<and> read_error empty_fs ''cache.json'' = None
   \<and> within_ttl 0 0 (defaultExpiration (memory (NewCache Hour (Hour * 2))))
   \<and> Cache_GetPPP sample_cache 0 ''TR'' = Some (the_ppp ''TR'' 11.5)
   \<and> Cache_GetPPP
         (snd (ImportFromFile plain_codec
                 (snd (ExportToFile plain_codec empty_fs sample_cache 0 ''cache.json''))
                 (NewCache Hour (Hour * 2)) 0 ''cache.json''))
         0 ''TR''
       = Some (the_ppp ''TR'' 11.5)"
proof -
  have a: "codec_faithful plain_codec"
    by (auto simp: codec_faithful_def plain_codec_def)
  have b: "distinct (map fst (entries (memory sample_cache)))"
    by code_simp
  have c: "fst (ExportToFile plain_codec empty_fs sample_cache 0 ''cache.json'') = None"
    by code_simp
  have d: "read_error empty_fs ''cache.json'' = None"
    by (simp add: empty_fs_def)
  have e: "within_ttl 0 0 (defaultExpiration (memory (NewCache Hour (Hour * 2))))"
    by (simp add: within_ttl_def)
  have f: "Cache_GetPPP sample_cache 0 ''TR'' = Some (the_ppp ''TR'' 11.5)"
    by code_simp
  from export_import_roundtrip [OF a b pair_fst [OF c] d e]
  obtain c' where
    "ImportFromFile plain_codec (snd (ExportToFile plain_codec empty_fs sample_cache 0 ''cache.json''))
       (NewCache Hour (Hour * 2)) 0 ''cache.json'' = (None, c')"
    "\<forall>country v. country \<noteq> [] \<and> Cache_GetPPP sample_cache 0 country = Some v
       \<longrightarrow> Cache_GetPPP c' 0 country = Some v"
    by blast
  with f have "Cache_GetPPP
         (snd (ImportFromFile plain_codec
                 (snd (ExportToFile plain_codec empty_fs sample_cache 0 ''cache.json''))
                 (NewCache Hour (Hour * 2)) 0 ''cache.json''))
         0 ''TR''
       = Some (the_ppp ''TR'' 11.5)"
    by simp
  with a b c d e f show ?thesis
    by simp
qed

text \<open>The same cache also holds an observation under the empty country code. It is
  found before the export and is not found after the import.\<close>

theorem export_import_empty_code_counterexample:
  "Cache_GetPPP sample_cache 0 [] = Some (the_ppp [] 7)
   \<and> Cache_GetPPP
         (snd (ImportFromFile plain_codec
                 (snd (ExportToFile plain_codec empty_fs sample_cache 0 ''cache.json''))
                 (NewCache Hour (Hour * 2)) 0 ''cache.json''))
         0 []
       = None"
  by code_simp

end
